theory Spec2Isabelle
  imports Complex_Main
begin

section \<open>JavaScript values\<close>

text \<open>
  The two scripts build plain object and array literals and hand them to imported
  constructors and components. A value is one of the literal forms of the language, an
  imported binding (\<open>Ext\<close>, known by its name only: a component, an action creator, an
  easing function) or an instance of an imported class (\<open>New\<close>, the class name with the
  argument object of the constructor call). An object literal is the list of its
  properties in the order written. Number literals are read as the decimal they denote;
  the scripts do no arithmetic on them.
\<close>

datatype jsval =
    Undefined
  | Null
  | Bool bool
  | Num real
  | Str string
  | Arr "jsval list"
  | Obj "(string \<times> jsval) list"
  | Ext string
  | New string jsval

datatype error = TypeError

type_synonym props = "(string \<times> jsval) list"

text \<open>Reading \<open>o.k\<close> on a plain object: the value stored, \<open>undefined\<close> for a missing key.\<close>

definition lookup :: "props \<Rightarrow> string \<Rightarrow> jsval" where
  "lookup kvs k = (case map_of kvs k of Some v \<Rightarrow> v | None \<Rightarrow> Undefined)"

text \<open>
  Reading \<open>v.k\<close> on any value: a TypeError on \<open>undefined\<close> and \<open>null\<close>, the stored value
  on a plain object; the other values of the model carry no data property of the names
  read here (\<open>id\<close>, \<open>r\<close>, \<open>g\<close>, \<open>b\<close>), so the read gives \<open>undefined\<close>.
\<close>

fun get_prop :: "jsval \<Rightarrow> string \<Rightarrow> error + jsval" where
  "get_prop Undefined k = Inl TypeError"
| "get_prop Null k = Inl TypeError"
| "get_prop (Obj kvs) k = Inr (lookup kvs k)"
| "get_prop v k = Inr Undefined"

text \<open>
  \<open>{...o, k: v}\<close>: the properties of \<open>o\<close> in their order, with \<open>k\<close> overwritten where it
  stands, or added at the end when \<open>o\<close> has no \<open>k\<close>.
\<close>

primrec set_prop :: "string \<Rightarrow> jsval \<Rightarrow> props \<Rightarrow> props" where
  "set_prop k v [] = [(k, v)]"
| "set_prop k v (p # ps) = (if fst p = k then (k, v) # ps else p # set_prop k v ps)"

text \<open>
  \<open>Array.prototype.find\<close>: the first element the callback accepts, \<open>undefined\<close> when there
  is none; an exception of the callback ends the search.
\<close>

fun find_js :: "(jsval \<Rightarrow> error + bool) \<Rightarrow> jsval list \<Rightarrow> error + jsval" where
  "find_js p [] = Inr Undefined"
| "find_js p (x # xs) =
     (case p x of
        Inl e \<Rightarrow> Inl e
      | Inr b \<Rightarrow> if b then Inr x else find_js p xs)"

text \<open>Sequencing: an exception of the first step is the exception of the whole.\<close>

definition bind :: "error + 'a \<Rightarrow> ('a \<Rightarrow> error + 'b) \<Rightarrow> error + 'b" where
  "bind m f = (case m of Inl e \<Rightarrow> Inl e | Inr x \<Rightarrow> f x)"


section \<open>The load-data modal override (factories/load-data-modal.js)\<close>

text \<open>
  \<open>LOADING_METHODS\<close> is imported from \<open>../constants/default-settings\<close>; it is a parameter
  here, a plain object. \<open>SampleMapGallery\<close>, \<open>SampleMapsTab\<close>, \<open>loadSample\<close> and
  \<open>loadSampleConfigurations\<close> are imported bindings.
\<close>

definition additionalMethods :: "props \<Rightarrow> props" where
  "additionalMethods LOADING_METHODS =
     [(''sample'', Obj
        [(''id'', lookup LOADING_METHODS ''sample''),
         (''label'', Str ''Sample Maps''),
         (''elementType'', Ext ''SampleMapGallery''),
         (''tabElementType'', Ext ''SampleMapsTab'')])]"

text \<open>
  A component is a function object with static properties; the script reads and
  replaces \<open>defaultProps\<close>, a plain object.
\<close>

record component =
  defaultProps :: props

text \<open>
  \<open>withState(lenses, mapStateToProps, actions)(Component)\<close> of the imported library is
  kept as the record of its arguments. The second argument of the call in the script,
  \<open>state => ({...state.demo.app, ...state.demo.keplerGl.map.uiState})\<close>, is called by the
  library only, and is not part of the record.
\<close>

record connected =
  lenses :: "jsval list"
  actions :: props
  wrapped :: component

text \<open>The callback of the search: \<open>lm => lm.id === 'upload'\<close>.\<close>

definition is_upload :: "jsval \<Rightarrow> error + bool" where
  "is_upload lm = bind (get_prop lm ''id'') (\<lambda>i. Inr (i = Str ''upload''))"

text \<open>
  \<open>LoadDataModalFactory\<close> is imported from the component library: a parameter, a function
  from the dependency list to the component it builds (or to the exception it throws).
  \<open>defaultLoadingMethods.find\<close> is the array method when \<open>loadingMethods\<close> is an array and a
  TypeError when the property is missing or holds a value without a \<open>find\<close> method.
\<close>

definition CustomLoadDataModalFactory ::
  "props \<Rightarrow> (jsval list \<Rightarrow> error + component) \<Rightarrow> jsval list \<Rightarrow> error + connected" where
  "CustomLoadDataModalFactory LOADING_METHODS LoadDataModalFactory deps =
     bind (LoadDataModalFactory deps) (\<lambda>LoadDataModal.
       case lookup (defaultProps LoadDataModal) ''loadingMethods'' of
         Arr defaultLoadingMethods \<Rightarrow>
           bind (find_js is_upload defaultLoadingMethods) (\<lambda>upload.
             Inr \<lparr> lenses = [],
                   actions = [(''onLoadSample'', Ext ''loadSample''),
                              (''loadSampleConfigurations'', Ext ''loadSampleConfigurations'')],
                   wrapped = LoadDataModal
                     \<lparr> defaultProps :=
                         set_prop ''loadingMethods''
                           (Arr [upload, lookup (additionalMethods LOADING_METHODS) ''sample''])
                           (defaultProps LoadDataModal) \<rparr> \<rparr>)
       | _ \<Rightarrow> Inl TypeError)"

text \<open>
  A factory is a function object with a \<open>deps\<close> property. The script assigns
  \<open>CustomLoadDataModalFactory.deps = LoadDataModalFactory.deps\<close> and exports the pair
  of the replaced factory and its replacement.
\<close>

record ('a) factory =
  call :: "jsval list \<Rightarrow> error + 'a"
  deps :: jsval

definition CustomLoadDataModalFactory_module ::
  "props \<Rightarrow> component factory \<Rightarrow> connected factory" where
  "CustomLoadDataModalFactory_module LOADING_METHODS LoadDataModalFactory =
     \<lparr> call = CustomLoadDataModalFactory LOADING_METHODS (call LoadDataModalFactory),
       deps = deps LoadDataModalFactory \<rparr>"

definition replaceLoadDataModal ::
  "props \<Rightarrow> component factory \<Rightarrow> component factory \<times> connected factory" where
  "replaceLoadDataModal LOADING_METHODS LoadDataModalFactory =
     (LoadDataModalFactory, CustomLoadDataModalFactory_module LOADING_METHODS LoadDataModalFactory)"


section \<open>The terrain demo (the second script)\<close>

subsection \<open>Module constants\<close>

definition INITIAL_VIEW_STATE :: jsval where
  "INITIAL_VIEW_STATE = Obj
     [(''latitude'', Num 46.24),
      (''longitude'', Num (- 122.18)),
      (''zoom'', Num 11.5),
      (''bearing'', Num 140),
      (''pitch'', Num 60)]"

text \<open>
  \<open>process.env\<close> maps names to strings; a name that is not set reads as \<open>undefined\<close>.
  A template literal puts the string itself, and the text \<open>undefined\<close> for \<open>undefined\<close>.
\<close>

type_synonym env = "string \<rightharpoonup> string"

definition MAPBOX_TOKEN :: "env \<Rightarrow> string option" where
  "MAPBOX_TOKEN process_env = process_env ''MapboxAccessToken''"

fun interpolate :: "string option \<Rightarrow> string" where
  "interpolate None = ''undefined''"
| "interpolate (Some s) = s"

definition TERRAIN_IMAGE :: "env \<Rightarrow> string" where
  "TERRAIN_IMAGE process_env =
     ''https://api.mapbox.com/v4/mapbox.terrain-rgb/{z}/{x}/{y}.png?access_token=''
       @ interpolate (MAPBOX_TOKEN process_env)"

definition SURFACE_IMAGE :: "env \<Rightarrow> string" where
  "SURFACE_IMAGE process_env =
     ''https://api.mapbox.com/v4/mapbox.satellite/{z}/{x}/{y}@2x.png?access_token=''
       @ interpolate (MAPBOX_TOKEN process_env)"

definition ELEVATION_DECODER :: jsval where
  "ELEVATION_DECODER = Obj
     [(''rScaler'', Num 6553.6),
      (''gScaler'', Num 25.6),
      (''bScaler'', Num 0.1),
      (''offset'', Num (- 10000))]"

definition getPrerecordedCameraKeyframes :: jsval where
  "getPrerecordedCameraKeyframes = New ''CameraKeyframes'' (Obj
     [(''timings'', Arr [Num 0, Num 6000, Num 7000, Num 8000, Num 14000]),
      (''keyframes'', Arr
         [Obj [(''latitude'', Num 46.24), (''longitude'', Num (- 122.18)),
               (''zoom'', Num 11.5), (''bearing'', Num 140), (''pitch'', Num 60)],
          Obj [(''latitude'', Num 46.24), (''longitude'', Num (- 122.18)),
               (''zoom'', Num 11.5), (''bearing'', Num 0), (''pitch'', Num 60)],
          Obj [(''latitude'', Num 36.1101), (''longitude'', Num (- 112.1906)),
               (''zoom'', Num 12.5), (''pitch'', Num 20), (''bearing'', Num 15)],
          Obj [(''latitude'', Num 36.1101), (''longitude'', Num (- 112.1906)),
               (''zoom'', Num 12.5), (''pitch'', Num 20), (''bearing'', Num 15)],
          Obj [(''latitude'', Num 36.1101), (''longitude'', Num (- 112.1906)),
               (''zoom'', Num 12.5), (''pitch'', Num 60), (''bearing'', Num 180)]]),
      (''easings'', Arr
         [Ext ''easing.easeInOut'', Ext ''hold'', Ext ''easing.easeInOut'',
          Ext ''easing.easeInOut''])])"

definition getKeyframes :: jsval where
  "getKeyframes = Obj
     [(''terrain'', New ''LayerKeyframes'' (Obj
        [(''layerId'', Str ''terrain''),
         (''features'', Arr [Str ''r'', Str ''g'', Str ''b'']),
         (''keyframes'', Arr
            [Obj [(''r'', Num 255), (''g'', Num 255), (''b'', Num 255)],
             Obj [(''r'', Num 255), (''g'', Num 0), (''b'', Num 0)],
             Obj [(''r'', Num 255), (''g'', Num 255), (''b'', Num 0)],
             Obj [(''r'', Num 0), (''g'', Num 255), (''b'', Num 0)],
             Obj [(''r'', Num 0), (''g'', Num 255), (''b'', Num 255)],
             Obj [(''r'', Num 0), (''g'', Num 0), (''b'', Num 255)],
             Obj [(''r'', Num 255), (''g'', Num 0), (''b'', Num 255)],
             Obj [(''r'', Num 255), (''g'', Num 255), (''b'', Num 255)]]),
         (''timings'', Arr
            [Num 0, Num 2000, Num 4000, Num 6000, Num 8000, Num 10000, Num 12000,
             Num 14000]),
         (''easings'', Arr
            [Ext ''easing.linear'', Ext ''easing.linear'', Ext ''easing.linear'',
             Ext ''easing.linear'', Ext ''easing.linear'', Ext ''easing.linear'',
             Ext ''easing.linear''])]))]"

definition encoderSettings :: jsval where
  "encoderSettings = Obj
     [(''framerate'', Num 30),
      (''webm'', Obj [(''quality'', Num 0.8)]),
      (''jpeg'', Obj [(''quality'', Num 0.8)]),
      (''gif'', Obj [(''sampleInterval'', Num 1000)])]"

subsection \<open>The component \<open>App\<close>\<close>

text \<open>
  The functions the component defines or passes on are values too. A function value is
  kept with the state variables its body reads: \<open>getFlyToCameraKeyframes\<close> reads
  \<open>viewStateA\<close> and \<open>viewStateB\<close>, \<open>getDeckScene\<close> reads \<open>duration\<close>, \<open>getLayers\<close> reads
  \<open>rainbow\<close>.
\<close>

datatype generator =
    GetPrerecordedCameraKeyframes
  | GetFlyToCameraKeyframes jsval jsval
  | GetKeyframes

datatype scene_builder = GetDeckScene real

datatype layers_fn = GetLayers bool

record deck_adapter =
  sceneBuilder :: scene_builder

text \<open>The state of the hooks, one field for each \<open>useState\<close>.\<close>

record app_state =
  ready :: bool
  busy :: bool
  viewState :: jsval
  viewStateA :: jsval
  viewStateB :: jsval
  duration :: real
  rainbow :: bool
  cameraMode :: string
  adapter :: deck_adapter

definition getFlyToCameraKeyframes :: "jsval \<Rightarrow> jsval \<Rightarrow> jsval" where
  "getFlyToCameraKeyframes vsA vsB = New ''FlyToKeyframes'' (Obj
     [(''start'', vsA),
      (''end'', vsB),
      (''width'', Num 640),
      (''height'', Num 480),
      (''curve'', Num 1)])"

definition getDeckScene :: "real \<Rightarrow> jsval \<Rightarrow> jsval" where
  "getDeckScene dur animationLoop = New ''DeckScene'' (Obj
     [(''animationLoop'', animationLoop),
      (''lengthMs'', Num dur),
      (''width'', Num 640),
      (''height'', Num 480),
      (''initialKeyframes'', getKeyframes)])"

text \<open>Calling a generator: what the body of the function returns.\<close>

fun generate :: "generator \<Rightarrow> jsval" where
  "generate GetPrerecordedCameraKeyframes = getPrerecordedCameraKeyframes"
| "generate (GetFlyToCameraKeyframes vsA vsB) = getFlyToCameraKeyframes vsA vsB"
| "generate GetKeyframes = getKeyframes"

definition initial_state :: app_state where
  "initial_state =
     \<lparr> ready = False,
       busy = False,
       viewState = INITIAL_VIEW_STATE,
       viewStateA = INITIAL_VIEW_STATE,
       viewStateB = Obj
         [(''latitude'', Num 36.1101), (''longitude'', Num (- 112.1906)),
          (''zoom'', Num 12.5), (''pitch'', Num 20), (''bearing'', Num 15)],
       duration = 15000,
       rainbow = False,
       cameraMode = ''prerecorded'',
       adapter = \<lparr> sceneBuilder = GetDeckScene 15000 \<rparr> \<rparr>"

text \<open>
  A scene gives its named keyframes objects as \<open>scene.keyframes\<close>. \<open>getFrame\<close> is a method
  of the imported keyframes class: a parameter, the frame (or the exception) the call on
  an instance gives. The call is a TypeError when \<open>scene.keyframes.terrain\<close> is
  \<open>undefined\<close> or \<open>null\<close>.
\<close>

record deck_scene =
  keyframes :: props

definition call_getFrame :: "(jsval \<Rightarrow> error + jsval) \<Rightarrow> jsval \<Rightarrow> error + jsval" where
  "call_getFrame getFrame inst =
     (case inst of Undefined \<Rightarrow> Inl TypeError | Null \<Rightarrow> Inl TypeError | _ \<Rightarrow> getFrame inst)"

definition getLayers ::
  "env \<Rightarrow> (jsval \<Rightarrow> error + jsval) \<Rightarrow> bool \<Rightarrow> deck_scene \<Rightarrow> error + jsval list" where
  "getLayers process_env getFrame rainbow_flag scene =
     bind (call_getFrame getFrame (lookup (keyframes scene) ''terrain'')) (\<lambda>terrain.
     bind (get_prop terrain ''r'') (\<lambda>r.
     bind (get_prop terrain ''g'') (\<lambda>g.
     bind (get_prop terrain ''b'') (\<lambda>b.
       Inr [New ''TerrainLayer'' (Obj
              [(''id'', Str ''terrain''),
               (''minZoom'', Num 0),
               (''maxZoom'', Num 23),
               (''strategy'', Str ''no-overlap''),
               (''elevationDecoder'', ELEVATION_DECODER),
               (''elevationData'', Str (TERRAIN_IMAGE process_env)),
               (''texture'', if rainbow_flag then Null else Str (SURFACE_IMAGE process_env)),
               (''wireframe'', Bool False),
               (''color'', Arr [r, g, b])])]))))"

definition getCameraKeyframes :: "app_state \<Rightarrow> generator" where
  "getCameraKeyframes st =
     (if cameraMode st = ''prerecorded'' then GetPrerecordedCameraKeyframes
      else GetFlyToCameraKeyframes (viewStateA st) (viewStateB st))"

text \<open>
  What one render of \<open>App\<close> hands to its children: the props of the map element, the
  props of the recording controls (rendered only when \<open>ready\<close>), and the state shown by
  the checkbox, the select and the two buttons. The setters and event handlers are not
  part of the record.
\<close>

record basic_controls =
  bc_adapter :: deck_adapter
  bc_busy :: bool
  bc_encoderSettings :: jsval
  bc_getCameraKeyframes :: generator
  bc_getKeyframes :: generator

record app_view =
  deck_initialViewState :: jsval
  deck_viewState :: jsval
  deck_controller :: bool
  deck_getLayers :: layers_fn
  controls :: "basic_controls option"
  checkbox_checked :: bool
  select_value :: string
  setStart_disabled :: bool
  setEnd_disabled :: bool

definition App :: "app_state \<Rightarrow> app_view" where
  "App st =
     \<lparr> deck_initialViewState = INITIAL_VIEW_STATE,
       deck_viewState = viewState st,
       deck_controller = True,
       deck_getLayers = GetLayers (rainbow st),
       controls =
         (if ready st then
            Some \<lparr> bc_adapter = adapter st,
                   bc_busy = busy st,
                   bc_encoderSettings = encoderSettings,
                   bc_getCameraKeyframes = getCameraKeyframes st,
                   bc_getKeyframes = GetKeyframes \<rparr>
          else None),
       checkbox_checked = rainbow st,
       select_value = cameraMode st,
       setStart_disabled = (cameraMode st = ''prerecorded''),
       setEnd_disabled = (cameraMode st = ''prerecorded'') \<rparr>"


text \<open>
  Loading the module evaluates the constants in order; none of the expressions has a
  step that can throw.
\<close>

record terrain_module =
  m_MAPBOX_TOKEN :: "string option"
  m_TERRAIN_IMAGE :: string
  m_SURFACE_IMAGE :: string
  m_encoderSettings :: jsval

definition init_module :: "env \<Rightarrow> error + terrain_module" where
  "init_module process_env =
     Inr \<lparr> m_MAPBOX_TOKEN = MAPBOX_TOKEN process_env,
           m_TERRAIN_IMAGE = TERRAIN_IMAGE process_env,
           m_SURFACE_IMAGE = SURFACE_IMAGE process_env,
           m_encoderSettings = encoderSettings \<rparr>"


section \<open>Reading the configurations\<close>

text \<open>
  The properties of a plain object, their names in the order written, the elements of
  an array and the argument object of a constructor call.
\<close>

fun props_of :: "jsval \<Rightarrow> props" where
  "props_of (Obj kvs) = kvs"
| "props_of v = []"

definition field :: "jsval \<Rightarrow> string \<Rightarrow> jsval" where
  "field v k = lookup (props_of v) k"

definition keys :: "jsval \<Rightarrow> string list" where
  "keys v = map fst (props_of v)"

fun elems :: "jsval \<Rightarrow> jsval list" where
  "elems (Arr xs) = xs"
| "elems v = []"

fun ctor_arg :: "jsval \<Rightarrow> jsval" where
  "ctor_arg (New c a) = a"
| "ctor_arg v = Undefined"

fun class_of :: "jsval \<Rightarrow> string option" where
  "class_of (New c a) = Some c"
| "class_of v = None"

text \<open>A list of numbers in strictly ascending order.\<close>

fun strictly_ascending :: "jsval list \<Rightarrow> bool" where
  "strictly_ascending [] = True"
| "strictly_ascending [Num a] = True"
| "strictly_ascending (Num a # Num b # vs) = (a < b \<and> strictly_ascending (Num b # vs))"
| "strictly_ascending vs = False"

text \<open>
  The pairing of a keyframes configuration: ascending timings, one keyframe for each
  timing, one easing for each pair of consecutive keyframes.
\<close>

definition keyframes_paired :: "jsval \<Rightarrow> bool" where
  "keyframes_paired cfg =
     (strictly_ascending (elems (field cfg ''timings'')) \<and>
      length (elems (field cfg ''keyframes'')) = length (elems (field cfg ''timings'')) \<and>
      Suc (length (elems (field cfg ''easings''))) = length (elems (field cfg ''timings'')))"

text \<open>An object with exactly the given property names, each once.\<close>

definition has_exactly :: "string list \<Rightarrow> jsval \<Rightarrow> bool" where
  "has_exactly ks v = (distinct (keys v) \<and> set (keys v) = set ks)"

text \<open>The loading methods of a component: the elements of \<open>defaultProps.loadingMethods\<close>.\<close>

definition loadingMethods :: "component \<Rightarrow> jsval list" where
  "loadingMethods c = elems (lookup (defaultProps c) ''loadingMethods'')"

text \<open>
  A component library whose modal offers two loading methods, file upload and cloud
  storage, and has one more default prop.
\<close>

definition upload_method :: jsval where
  "upload_method = Obj
     [(''id'', Str ''upload''), (''label'', Str ''modal.loadData.upload''),
      (''elementType'', Ext ''FileUpload'')]"

definition storage_method :: jsval where
  "storage_method = Obj
     [(''id'', Str ''storage''), (''label'', Str ''modal.loadData.storage''),
      (''elementType'', Ext ''LoadStorageMap'')]"

definition library_modal :: component where
  "library_modal =
     \<lparr> defaultProps =
         [(''onClose'', Ext ''noop''),
          (''loadingMethods'', Arr [upload_method, storage_method])] \<rparr>"

definition library_factory :: "jsval list \<Rightarrow> error + component" where
  "library_factory ds = Inr library_modal"

definition demo_LOADING_METHODS :: props where
  "demo_LOADING_METHODS = [(''remote'', Str ''remote''), (''sample'', Str ''sample'')]"

text \<open>
  A scene holding the terrain keyframes the script builds, and a \<open>getFrame\<close> that gives the
  second keyframe of the instance it is called on (for those keyframes, the red one).
\<close>

definition terrain_scene :: deck_scene where
  "terrain_scene = \<lparr> keyframes = [(''terrain'', field getKeyframes ''terrain'')] \<rparr>"

definition getFrame_second :: "jsval \<Rightarrow> error + jsval" where
  "getFrame_second inst =
     (case elems (field (ctor_arg inst) ''keyframes'') of
        a # b # rest \<Rightarrow> Inr b
      | _ \<Rightarrow> Inl TypeError)"


text \<open>
  The component the custom factory returns for that library, and the loading methods of
  the component a factory run produces.
\<close>

definition library_custom :: connected where
  "library_custom =
     \<lparr> lenses = [],
       actions = [(''onLoadSample'', Ext ''loadSample''),
                  (''loadSampleConfigurations'', Ext ''loadSampleConfigurations'')],
       wrapped = \<lparr> defaultProps =
         [(''onClose'', Ext ''noop''),
          (''loadingMethods'',
           Arr [upload_method, lookup (additionalMethods demo_LOADING_METHODS) ''sample''])] \<rparr> \<rparr>"


text \<open>The state after the user has chosen the fly-to camera.\<close>

definition fly_to_state :: app_state where
  "fly_to_state = initial_state \<lparr> ready := True, cameraMode := ''fly-to'' \<rparr>"


section \<open>Properties of the modal override\<close>

subsection \<open>Objects, search and sequencing\<close>

lemma bind_Inr_iff: "bind m f = Inr y \<longleftrightarrow> (\<exists>x. m = Inr x \<and> f x = Inr y)"
  by (cases m) (simp_all add: bind_def)

lemma map_of_set_prop: "map_of (set_prop k v ps) = (map_of ps)(k \<mapsto> v)"
  by (induction ps) (auto simp: fun_eq_iff)

lemma lookup_set_prop_same: "lookup (set_prop k v ps) k = v"
  by (simp add: lookup_def map_of_set_prop)


lemma is_upload_total: "lm \<noteq> Undefined \<Longrightarrow> lm \<noteq> Null \<Longrightarrow> \<exists>b. is_upload lm = Inr b"
  by (cases lm) (auto simp: is_upload_def bind_def)


lemma find_js_total:
  "list_all (\<lambda>lm. lm \<noteq> Undefined \<and> lm \<noteq> Null) xs \<Longrightarrow> \<exists>u. find_js is_upload xs = Inr u"
proof (induction xs)
  case Nil
  then show ?case by simp
next
  case (Cons x xs)
  then obtain b where "is_upload x = Inr b" using is_upload_total [of x] by auto
  with Cons show ?case by (cases b) simp_all
qed

lemma CustomLoadDataModalFactory_Inr:
  assumes "CustomLoadDataModalFactory LM F ds = Inr c"
  shows "\<exists>M dflt u. F ds = Inr M \<and> lookup (defaultProps M) ''loadingMethods'' = Arr dflt \<and>
           find_js is_upload dflt = Inr u \<and>
           defaultProps (wrapped c) =
             set_prop ''loadingMethods'' (Arr [u, lookup (additionalMethods LM) ''sample''])
               (defaultProps M)"
proof -
  from assms obtain M where M: "F ds = Inr M"
    and rest: "(case lookup (defaultProps M) ''loadingMethods'' of
         Arr dflt \<Rightarrow>
           bind (find_js is_upload dflt) (\<lambda>upload.
             Inr \<lparr> lenses = [],
                   actions = [(''onLoadSample'', Ext ''loadSample''),
                              (''loadSampleConfigurations'', Ext ''loadSampleConfigurations'')],
                   wrapped = M
                     \<lparr> defaultProps :=
                         set_prop ''loadingMethods''
                           (Arr [upload, lookup (additionalMethods LM) ''sample''])
                           (defaultProps M) \<rparr> \<rparr>)
       | _ \<Rightarrow> Inl TypeError) = Inr c"
    unfolding CustomLoadDataModalFactory_def bind_Inr_iff by blast
  from rest obtain dflt where dflt: "lookup (defaultProps M) ''loadingMethods'' = Arr dflt"
    by (cases "lookup (defaultProps M) ''loadingMethods''") simp_all
  from rest dflt obtain u where u: "find_js is_upload dflt = Inr u"
    and c: "c = \<lparr> lenses = [],
                   actions = [(''onLoadSample'', Ext ''loadSample''),
                              (''loadSampleConfigurations'', Ext ''loadSampleConfigurations'')],
                   wrapped = M
                     \<lparr> defaultProps :=
                         set_prop ''loadingMethods''
                           (Arr [u, lookup (additionalMethods LM) ''sample''])
                           (defaultProps M) \<rparr> \<rparr>"
    by (auto simp: bind_Inr_iff)
  from M dflt u c show ?thesis by simp
qed

lemma CustomLoadDataModalFactory_methods:
  assumes "CustomLoadDataModalFactory LM F ds = Inr c"
  shows "\<exists>M dflt u. F ds = Inr M \<and> lookup (defaultProps M) ''loadingMethods'' = Arr dflt \<and>
           find_js is_upload dflt = Inr u \<and>
           loadingMethods (wrapped c) = [u, lookup (additionalMethods LM) ''sample'']"
  using CustomLoadDataModalFactory_Inr [OF assms]
  by (auto simp: loadingMethods_def lookup_set_prop_same)


lemma CustomLoadDataModalFactory_total:
  assumes "F ds = Inr M" and "lookup (defaultProps M) ''loadingMethods'' = Arr dflt"
    and "list_all (\<lambda>lm. lm \<noteq> Undefined \<and> lm \<noteq> Null) dflt"
  shows "\<exists>c. CustomLoadDataModalFactory LM F ds = Inr c"
proof -
  from find_js_total [OF assms(3)] obtain u where "find_js is_upload dflt = Inr u" ..
  with assms(1,2) show ?thesis
    by (simp add: CustomLoadDataModalFactory_def bind_def)
qed

lemma library_run:
  "CustomLoadDataModalFactory demo_LOADING_METHODS library_factory [] = Inr library_custom"
  by (simp add: CustomLoadDataModalFactory_def library_factory_def library_modal_def bind_def
      lookup_def is_upload_def upload_method_def library_custom_def)

subsection \<open>The loading methods of the customized modal\<close>




text \<open>
  C3: whenever the custom factory returns, the loading methods of the produced component
  contain the sample descriptor, whose id is \<open>LOADING_METHODS.sample\<close> and whose label is
  \<open>Sample Maps\<close>; and the factory does return when the original factory gives a component
  whose default loading methods are an array without \<open>undefined\<close> or \<open>null\<close> entries.
\<close>

theorem loadingMethods_contain_sample:
  "(\<forall>c. CustomLoadDataModalFactory LM F ds = Inr c \<longrightarrow>
      lookup (additionalMethods LM) ''sample'' \<in> set (loadingMethods (wrapped c))) \<and>
   (\<forall>M dflt. F ds = Inr M \<and> lookup (defaultProps M) ''loadingMethods'' = Arr dflt \<and>
      list_all (\<lambda>lm. lm \<noteq> Undefined \<and> lm \<noteq> Null) dflt \<longrightarrow>
      (\<exists>c. CustomLoadDataModalFactory LM F ds = Inr c)) \<and>
   field (lookup (additionalMethods LM) ''sample'') ''id'' = lookup LM ''sample'' \<and>
   field (lookup (additionalMethods LM) ''sample'') ''label'' = Str ''Sample Maps''"
proof (intro conjI allI impI)
  fix c assume "CustomLoadDataModalFactory LM F ds = Inr c"
  from CustomLoadDataModalFactory_methods [OF this]
  show "lookup (additionalMethods LM) ''sample'' \<in> set (loadingMethods (wrapped c))" by auto
next
  fix M dflt
  assume "F ds = Inr M \<and> lookup (defaultProps M) ''loadingMethods'' = Arr dflt \<and>
      list_all (\<lambda>lm. lm \<noteq> Undefined \<and> lm \<noteq> Null) dflt"
  then show "\<exists>c. CustomLoadDataModalFactory LM F ds = Inr c"
    using CustomLoadDataModalFactory_total by blast
next
  show "field (lookup (additionalMethods LM) ''sample'') ''id'' = lookup LM ''sample''"
    by (simp add: additionalMethods_def field_def lookup_def)
  show "field (lookup (additionalMethods LM) ''sample'') ''label'' = Str ''Sample Maps''"
    by (simp add: additionalMethods_def field_def lookup_def)
qed

theorem loadingMethods_contain_sample_witness:
  "CustomLoadDataModalFactory demo_LOADING_METHODS library_factory [] = Inr library_custom \<and>
   lookup (additionalMethods demo_LOADING_METHODS) ''sample''
     \<in> set (loadingMethods (wrapped library_custom)) \<and>
   library_factory [] = Inr library_modal \<and>
   lookup (defaultProps library_modal) ''loadingMethods'' = Arr [upload_method, storage_method] \<and>
   list_all (\<lambda>lm. lm \<noteq> Undefined \<and> lm \<noteq> Null) [upload_method, storage_method] \<and>
   (\<exists>c. CustomLoadDataModalFactory demo_LOADING_METHODS library_factory [] = Inr c) \<and>
   field (lookup (additionalMethods demo_LOADING_METHODS) ''sample'') ''id'' = Str ''sample''"
proof -
  note t = loadingMethods_contain_sample [of demo_LOADING_METHODS library_factory "[]"]
  have a: "library_factory [] = Inr library_modal"
    by (simp add: library_factory_def)
  have b: "lookup (defaultProps library_modal) ''loadingMethods'' = Arr [upload_method, storage_method]"
    by (simp add: library_modal_def lookup_def)
  have c: "list_all (\<lambda>lm. lm \<noteq> Undefined \<and> lm \<noteq> Null) [upload_method, storage_method]"
    by (simp add: upload_method_def storage_method_def)
  from t library_run
  have d: "lookup (additionalMethods demo_LOADING_METHODS) ''sample''
             \<in> set (loadingMethods (wrapped library_custom))"
    by blast
  from t a b c have e: "\<exists>c. CustomLoadDataModalFactory demo_LOADING_METHODS library_factory [] = Inr c"
    by blast
  from t have f: "field (lookup (additionalMethods demo_LOADING_METHODS) ''sample'') ''id'' = Str ''sample''"
    by (simp add: demo_LOADING_METHODS_def lookup_def)
  from library_run a b c d e f show ?thesis by blast
qed

text \<open>
  C4: whenever the custom factory returns, every default prop of the produced component
  other than \<open>loadingMethods\<close> is there exactly when the original factory set it, with
  the value the original factory set.
\<close>

theorem other_defaultProps_unchanged:
  assumes "CustomLoadDataModalFactory LM F ds = Inr c" and "k \<noteq> ''loadingMethods''"
  shows "\<exists>M. F ds = Inr M \<and> map_of (defaultProps (wrapped c)) k = map_of (defaultProps M) k"
  using CustomLoadDataModalFactory_Inr [OF assms(1)] assms(2) by (auto simp: map_of_set_prop)

theorem other_defaultProps_unchanged_witness:
  "CustomLoadDataModalFactory demo_LOADING_METHODS library_factory [] = Inr library_custom \<and>
   ''onClose'' \<noteq> ''loadingMethods'' \<and>
   map_of (defaultProps (wrapped library_custom)) ''onClose'' = Some (Ext ''noop'') \<and>
   (\<exists>M. library_factory [] = Inr M \<and>
      map_of (defaultProps (wrapped library_custom)) ''onClose'' = map_of (defaultProps M) ''onClose'')"
proof -
  have ne: "''onClose'' \<noteq> ''loadingMethods''" by simp
  from other_defaultProps_unchanged [OF library_run ne] library_run ne show ?thesis
    by (simp add: library_custom_def)
qed

text \<open>
  C6: the sample descriptor \<open>additionalMethods.sample\<close>, the value the factory puts into the
  loading methods of the modal, has the four properties \<open>id\<close>, \<open>label\<close>, \<open>elementType\<close> and
  \<open>tabElementType\<close>, each once, and no other.
\<close>

theorem sample_descriptor_fields:
  "keys (lookup (additionalMethods LM) ''sample'') =
     [''id'', ''label'', ''elementType'', ''tabElementType''] \<and>
   has_exactly [''id'', ''label'', ''elementType'', ''tabElementType'']
     (lookup (additionalMethods LM) ''sample'')"
  by (simp add: additionalMethods_def lookup_def keys_def has_exactly_def)

text \<open>
  C8: the \<open>deps\<close> of the custom factory are the \<open>deps\<close> of the factory it replaces, for the
  factory object the module builds and for the pair \<open>replaceLoadDataModal\<close> returns.
\<close>

theorem custom_factory_deps:
  "deps (CustomLoadDataModalFactory_module LM LoadDataModalFactory) = deps LoadDataModalFactory \<and>
   deps (snd (replaceLoadDataModal LM LoadDataModalFactory)) =
     deps (fst (replaceLoadDataModal LM LoadDataModalFactory))"
  by (simp add: CustomLoadDataModalFactory_module_def replaceLoadDataModal_def)


section \<open>Properties of the terrain demo\<close>

lemma get_prop_field: "get_prop v k = Inr x \<Longrightarrow> x = field v k"
  by (cases v) (simp_all add: field_def lookup_def)

lemma call_getFrame_Inr_iff:
  "call_getFrame gf inst = Inr f \<longleftrightarrow> inst \<noteq> Undefined \<and> inst \<noteq> Null \<and> gf inst = Inr f"
  by (cases inst) (simp_all add: call_getFrame_def)

lemma get_prop_total: "v \<noteq> Undefined \<Longrightarrow> v \<noteq> Null \<Longrightarrow> get_prop v k = Inr (field v k)"
  by (cases v) (simp_all add: field_def lookup_def)

text \<open>
  C1: the two keyframes configurations the script writes with a timings list, the
  argument of \<open>new CameraKeyframes\<close> in \<open>getPrerecordedCameraKeyframes\<close> and the argument of
  \<open>new LayerKeyframes\<close> under \<open>terrain\<close> in \<open>getKeyframes\<close>, each pair strictly ascending
  timings with as many keyframes and one easing fewer. The camera has the timings 0,
  6000, 7000, 8000, 14000, five snapshots with exactly latitude, longitude, zoom, bearing
  and pitch, and four easings; the terrain has the timings 0, 2000, ..., 14000, eight
  keyframes with exactly r, g and b, and seven easings.
\<close>

theorem keyframe_configurations_paired:
  "class_of getPrerecordedCameraKeyframes = Some ''CameraKeyframes'' \<and>
   keyframes_paired (ctor_arg getPrerecordedCameraKeyframes) \<and>
   elems (field (ctor_arg getPrerecordedCameraKeyframes) ''timings'') =
     map Num [0, 6000, 7000, 8000, 14000] \<and>
   length (elems (field (ctor_arg getPrerecordedCameraKeyframes) ''keyframes'')) = 5 \<and>
   list_all (has_exactly [''latitude'', ''longitude'', ''zoom'', ''bearing'', ''pitch''])
     (elems (field (ctor_arg getPrerecordedCameraKeyframes) ''keyframes'')) \<and>
   length (elems (field (ctor_arg getPrerecordedCameraKeyframes) ''easings'')) = 4 \<and>
   keys getKeyframes = [''terrain''] \<and>
   class_of (field getKeyframes ''terrain'') = Some ''LayerKeyframes'' \<and>
   keyframes_paired (ctor_arg (field getKeyframes ''terrain'')) \<and>
   elems (field (ctor_arg (field getKeyframes ''terrain'')) ''timings'') =
     map Num [0, 2000, 4000, 6000, 8000, 10000, 12000, 14000] \<and>
   length (elems (field (ctor_arg (field getKeyframes ''terrain'')) ''keyframes'')) = 8 \<and>
   list_all (has_exactly [''r'', ''g'', ''b''])
     (elems (field (ctor_arg (field getKeyframes ''terrain'')) ''keyframes'')) \<and>
   length (elems (field (ctor_arg (field getKeyframes ''terrain'')) ''easings'')) = 7"
proof -
  have cam: "class_of getPrerecordedCameraKeyframes = Some ''CameraKeyframes'' \<and>
     keyframes_paired (ctor_arg getPrerecordedCameraKeyframes) \<and>
     elems (field (ctor_arg getPrerecordedCameraKeyframes) ''timings'') =
       map Num [0, 6000, 7000, 8000, 14000] \<and>
     length (elems (field (ctor_arg getPrerecordedCameraKeyframes) ''keyframes'')) = 5 \<and>
     length (elems (field (ctor_arg getPrerecordedCameraKeyframes) ''easings'')) = 4"
    by (simp add: keyframes_paired_def getPrerecordedCameraKeyframes_def field_def lookup_def)
  have cam_keys:
    "list_all (has_exactly [''latitude'', ''longitude'', ''zoom'', ''bearing'', ''pitch''])
       (elems (field (ctor_arg getPrerecordedCameraKeyframes) ''keyframes''))"
    by (simp add: getPrerecordedCameraKeyframes_def field_def lookup_def has_exactly_def
        keys_def insert_commute)
  have ter: "keys getKeyframes = [''terrain''] \<and>
     class_of (field getKeyframes ''terrain'') = Some ''LayerKeyframes'' \<and>
     keyframes_paired (ctor_arg (field getKeyframes ''terrain'')) \<and>
     elems (field (ctor_arg (field getKeyframes ''terrain'')) ''timings'') =
       map Num [0, 2000, 4000, 6000, 8000, 10000, 12000, 14000] \<and>
     length (elems (field (ctor_arg (field getKeyframes ''terrain'')) ''keyframes'')) = 8 \<and>
     length (elems (field (ctor_arg (field getKeyframes ''terrain'')) ''easings'')) = 7"
    by (simp add: keyframes_paired_def getKeyframes_def field_def lookup_def keys_def)
  have ter_keys:
    "list_all (has_exactly [''r'', ''g'', ''b''])
       (elems (field (ctor_arg (field getKeyframes ''terrain'')) ''keyframes''))"
    by (simp add: getKeyframes_def field_def lookup_def has_exactly_def keys_def)
  from cam cam_keys ter ter_keys show ?thesis by blast
qed

text \<open>
  C5: the encoder settings have the four properties \<open>framerate\<close>, \<open>webm\<close>, \<open>jpeg\<close> and \<open>gif\<close>,
  with \<open>framerate\<close> 30, \<open>webm\<close> and \<open>jpeg\<close> an object of the one property \<open>quality\<close> 0.8, and
  \<open>gif\<close> an object of the one property \<open>sampleInterval\<close> 1000. The value is the constant
  the module builds when it loads, and every render that shows the recording controls
  hands them that constant, whatever the state.
\<close>

theorem encoderSettings_shape:
  "keys encoderSettings = [''framerate'', ''webm'', ''jpeg'', ''gif''] \<and>
   field encoderSettings ''framerate'' = Num 30 \<and>
   field encoderSettings ''webm'' = Obj [(''quality'', Num 0.8)] \<and>
   field encoderSettings ''jpeg'' = Obj [(''quality'', Num 0.8)] \<and>
   field encoderSettings ''gif'' = Obj [(''sampleInterval'', Num 1000)] \<and>
   map_sum id m_encoderSettings (init_module process_env) = Inr encoderSettings \<and>
   map_option bc_encoderSettings (controls (App st)) =
     (if ready st then Some encoderSettings else None)"
  by (simp add: encoderSettings_def keys_def field_def lookup_def init_module_def App_def)

text \<open>
  C7: for every environment, with the token set or not, loading the module gives its
  constants and no exception, and the two URL templates are the fixed text followed by
  the token as it is, or by the text \<open>undefined\<close> when the token is not set.
\<close>

theorem module_loads_for_every_token:
  "\<exists>m. init_module process_env = Inr m \<and>
     m_MAPBOX_TOKEN m = process_env ''MapboxAccessToken'' \<and>
     m_TERRAIN_IMAGE m = TERRAIN_IMAGE process_env \<and>
     m_SURFACE_IMAGE m = SURFACE_IMAGE process_env \<and>
     TERRAIN_IMAGE process_env =
       ''https://api.mapbox.com/v4/mapbox.terrain-rgb/{z}/{x}/{y}.png?access_token='' @
       (case process_env ''MapboxAccessToken'' of None \<Rightarrow> ''undefined'' | Some t \<Rightarrow> t) \<and>
     SURFACE_IMAGE process_env =
       ''https://api.mapbox.com/v4/mapbox.satellite/{z}/{x}/{y}@2x.png?access_token='' @
       (case process_env ''MapboxAccessToken'' of None \<Rightarrow> ''undefined'' | Some t \<Rightarrow> t)"
  by (cases "process_env ''MapboxAccessToken''")
     (simp_all add: init_module_def MAPBOX_TOKEN_def TERRAIN_IMAGE_def SURFACE_IMAGE_def)


text \<open>
  C9: for every scene, every \<open>getFrame\<close> and both values of the rainbow flag: when the
  scene has terrain keyframes and \<open>getFrame\<close> on them gives a frame (other than
  \<open>undefined\<close> and \<open>null\<close>), \<open>getLayers\<close> returns a list of one layer, a \<open>TerrainLayer\<close>, whose
  color is the array of \<open>r\<close>, \<open>g\<close> and \<open>b\<close> of that frame, and whose texture is \<open>null\<close> exactly
  when the flag is set and the surface image URL otherwise; and whenever \<open>getLayers\<close>
  returns, the scene has terrain keyframes, \<open>getFrame\<close> on them gave a frame, and the
  result is that one layer.
\<close>

theorem getLayers_one_terrain_layer:
  "(\<forall>frame. lookup (keyframes scene) ''terrain'' \<noteq> Undefined \<and>
      lookup (keyframes scene) ''terrain'' \<noteq> Null \<and>
      getFrame (lookup (keyframes scene) ''terrain'') = Inr frame \<and>
      frame \<noteq> Undefined \<and> frame \<noteq> Null \<longrightarrow>
      (\<exists>opts. getLayers process_env getFrame rb scene = Inr [New ''TerrainLayer'' (Obj opts)] \<and>
         lookup opts ''color'' = Arr [field frame ''r'', field frame ''g'', field frame ''b''] \<and>
         (lookup opts ''texture'' = Null) = rb \<and>
         lookup opts ''texture'' = (if rb then Null else Str (SURFACE_IMAGE process_env)))) \<and>
   (\<forall>ls. getLayers process_env getFrame rb scene = Inr ls \<longrightarrow>
      (\<exists>frame opts.
         lookup (keyframes scene) ''terrain'' \<noteq> Undefined \<and>
         lookup (keyframes scene) ''terrain'' \<noteq> Null \<and>
         getFrame (lookup (keyframes scene) ''terrain'') = Inr frame \<and>
         ls = [New ''TerrainLayer'' (Obj opts)] \<and>
         lookup opts ''color'' = Arr [field frame ''r'', field frame ''g'', field frame ''b''] \<and>
         (lookup opts ''texture'' = Null) = rb \<and>
         lookup opts ''texture'' = (if rb then Null else Str (SURFACE_IMAGE process_env))))"
proof (intro conjI allI impI)
  fix frame
  assume a: "lookup (keyframes scene) ''terrain'' \<noteq> Undefined \<and>
      lookup (keyframes scene) ''terrain'' \<noteq> Null \<and>
      getFrame (lookup (keyframes scene) ''terrain'') = Inr frame \<and>
      frame \<noteq> Undefined \<and> frame \<noteq> Null"
  let ?opts = "[(''id'', Str ''terrain''),
               (''minZoom'', Num 0),
               (''maxZoom'', Num 23),
               (''strategy'', Str ''no-overlap''),
               (''elevationDecoder'', ELEVATION_DECODER),
               (''elevationData'', Str (TERRAIN_IMAGE process_env)),
               (''texture'', if rb then Null else Str (SURFACE_IMAGE process_env)),
               (''wireframe'', Bool False),
               (''color'', Arr [field frame ''r'', field frame ''g'', field frame ''b''])]"
  from a have "call_getFrame getFrame (lookup (keyframes scene) ''terrain'') = Inr frame"
    by (simp add: call_getFrame_Inr_iff)
  with a have "getLayers process_env getFrame rb scene = Inr [New ''TerrainLayer'' (Obj ?opts)]"
    by (simp add: getLayers_def bind_def get_prop_total)
  moreover have "lookup ?opts ''color'' = Arr [field frame ''r'', field frame ''g'', field frame ''b'']"
    by (simp add: lookup_def)
  moreover have "lookup ?opts ''texture'' = (if rb then Null else Str (SURFACE_IMAGE process_env))"
    by (simp add: lookup_def)
  moreover from this have "(lookup ?opts ''texture'' = Null) = rb"
    by simp
  ultimately show "\<exists>opts.
         getLayers process_env getFrame rb scene = Inr [New ''TerrainLayer'' (Obj opts)] \<and>
         lookup opts ''color'' = Arr [field frame ''r'', field frame ''g'', field frame ''b''] \<and>
         (lookup opts ''texture'' = Null) = rb \<and>
         lookup opts ''texture'' = (if rb then Null else Str (SURFACE_IMAGE process_env))"
    by blast
next
  fix ls
  assume ret: "getLayers process_env getFrame rb scene = Inr ls"
  then obtain frame r g b where
    frame: "call_getFrame getFrame (lookup (keyframes scene) ''terrain'') = Inr frame"
    and r: "get_prop frame ''r'' = Inr r"
    and g: "get_prop frame ''g'' = Inr g"
    and b: "get_prop frame ''b'' = Inr b"
    and ls: "ls = [New ''TerrainLayer'' (Obj
              [(''id'', Str ''terrain''),
               (''minZoom'', Num 0),
               (''maxZoom'', Num 23),
               (''strategy'', Str ''no-overlap''),
               (''elevationDecoder'', ELEVATION_DECODER),
               (''elevationData'', Str (TERRAIN_IMAGE process_env)),
               (''texture'', if rb then Null else Str (SURFACE_IMAGE process_env)),
               (''wireframe'', Bool False),
               (''color'', Arr [r, g, b])])]"
    unfolding getLayers_def bind_Inr_iff by auto
  from frame have inst: "lookup (keyframes scene) ''terrain'' \<noteq> Undefined"
    "lookup (keyframes scene) ''terrain'' \<noteq> Null"
    "getFrame (lookup (keyframes scene) ''terrain'') = Inr frame"
    by (simp_all add: call_getFrame_Inr_iff)
  from r g b have rgb: "r = field frame ''r''" "g = field frame ''g''" "b = field frame ''b''"
    by (simp_all add: get_prop_field)
  let ?opts = "[(''id'', Str ''terrain''),
               (''minZoom'', Num 0),
               (''maxZoom'', Num 23),
               (''strategy'', Str ''no-overlap''),
               (''elevationDecoder'', ELEVATION_DECODER),
               (''elevationData'', Str (TERRAIN_IMAGE process_env)),
               (''texture'', if rb then Null else Str (SURFACE_IMAGE process_env)),
               (''wireframe'', Bool False),
               (''color'', Arr [r, g, b])]"
  have "ls = [New ''TerrainLayer'' (Obj ?opts)]" using ls .
  moreover have "lookup ?opts ''color'' = Arr [field frame ''r'', field frame ''g'', field frame ''b'']"
    using rgb by (simp add: lookup_def)
  moreover have "lookup ?opts ''texture'' = (if rb then Null else Str (SURFACE_IMAGE process_env))"
    by (simp add: lookup_def)
  moreover from this have "(lookup ?opts ''texture'' = Null) = rb"
    by simp
  ultimately show "\<exists>frame opts.
         lookup (keyframes scene) ''terrain'' \<noteq> Undefined \<and>
         lookup (keyframes scene) ''terrain'' \<noteq> Null \<and>
         getFrame (lookup (keyframes scene) ''terrain'') = Inr frame \<and>
         ls = [New ''TerrainLayer'' (Obj opts)] \<and>
         lookup opts ''color'' = Arr [field frame ''r'', field frame ''g'', field frame ''b''] \<and>
         (lookup opts ''texture'' = Null) = rb \<and>
         lookup opts ''texture'' = (if rb then Null else Str (SURFACE_IMAGE process_env))"
    using inst by blast
qed

theorem getLayers_one_terrain_layer_witness:
  "lookup (keyframes terrain_scene) ''terrain'' = field getKeyframes ''terrain'' \<and>
   field getKeyframes ''terrain'' \<noteq> Undefined \<and>
   field getKeyframes ''terrain'' \<noteq> Null \<and>
   getFrame_second (field getKeyframes ''terrain'') =
     Inr (Obj [(''r'', Num 255), (''g'', Num 0), (''b'', Num 0)]) \<and>
   (\<exists>opts. getLayers Map.empty getFrame_second True terrain_scene =
        Inr [New ''TerrainLayer'' (Obj opts)] \<and>
      lookup opts ''color'' = Arr [Num 255, Num 0, Num 0] \<and>
      lookup opts ''texture'' = Null) \<and>
   (\<exists>opts. getLayers Map.empty getFrame_second False terrain_scene =
        Inr [New ''TerrainLayer'' (Obj opts)] \<and>
      lookup opts ''color'' = Arr [Num 255, Num 0, Num 0] \<and>
      lookup opts ''texture'' = Str (SURFACE_IMAGE Map.empty))"
proof -
  note t = getLayers_one_terrain_layer [of terrain_scene getFrame_second Map.empty True]
  note f = getLayers_one_terrain_layer [of terrain_scene getFrame_second Map.empty False]
  have inst: "lookup (keyframes terrain_scene) ''terrain'' = field getKeyframes ''terrain''"
    by (simp add: terrain_scene_def lookup_def)
  have ne: "field getKeyframes ''terrain'' \<noteq> Undefined" "field getKeyframes ''terrain'' \<noteq> Null"
    by (simp_all add: getKeyframes_def field_def lookup_def)
  have fr: "getFrame_second (field getKeyframes ''terrain'') =
     Inr (Obj [(''r'', Num 255), (''g'', Num 0), (''b'', Num 0)])"
    by (simp add: getFrame_second_def getKeyframes_def field_def lookup_def)
  have rgb: "Arr [field (Obj [(''r'', Num 255), (''g'', Num 0), (''b'', Num 0)]) ''r'',
                  field (Obj [(''r'', Num 255), (''g'', Num 0), (''b'', Num 0)]) ''g'',
                  field (Obj [(''r'', Num 255), (''g'', Num 0), (''b'', Num 0)]) ''b''] =
             Arr [Num 255, Num 0, Num 0]"
    by (simp add: field_def lookup_def)
  have hyp: "lookup (keyframes terrain_scene) ''terrain'' \<noteq> Undefined \<and>
      lookup (keyframes terrain_scene) ''terrain'' \<noteq> Null \<and>
      getFrame_second (lookup (keyframes terrain_scene) ''terrain'') =
        Inr (Obj [(''r'', Num 255), (''g'', Num 0), (''b'', Num 0)]) \<and>
      Obj [(''r'', Num 255), (''g'', Num 0), (''b'', Num 0)] \<noteq> Undefined \<and>
      Obj [(''r'', Num 255), (''g'', Num 0), (''b'', Num 0)] \<noteq> Null"
    using inst ne fr by simp
  from t hyp obtain opts where
    o: "getLayers Map.empty getFrame_second True terrain_scene =
          Inr [New ''TerrainLayer'' (Obj opts)]"
       "lookup opts ''color'' =
          Arr [field (Obj [(''r'', Num 255), (''g'', Num 0), (''b'', Num 0)]) ''r'',
               field (Obj [(''r'', Num 255), (''g'', Num 0), (''b'', Num 0)]) ''g'',
               field (Obj [(''r'', Num 255), (''g'', Num 0), (''b'', Num 0)]) ''b'']"
       "lookup opts ''texture'' = (if True then Null else Str (SURFACE_IMAGE Map.empty))"
    by blast
  from f hyp obtain opts' where
    o': "getLayers Map.empty getFrame_second False terrain_scene =
          Inr [New ''TerrainLayer'' (Obj opts')]"
       "lookup opts' ''color'' =
          Arr [field (Obj [(''r'', Num 255), (''g'', Num 0), (''b'', Num 0)]) ''r'',
               field (Obj [(''r'', Num 255), (''g'', Num 0), (''b'', Num 0)]) ''g'',
               field (Obj [(''r'', Num 255), (''g'', Num 0), (''b'', Num 0)]) ''b'']"
       "lookup opts' ''texture'' = (if False then Null else Str (SURFACE_IMAGE Map.empty))"
    by blast
  from o rgb have A: "\<exists>opts. getLayers Map.empty getFrame_second True terrain_scene =
        Inr [New ''TerrainLayer'' (Obj opts)] \<and>
      lookup opts ''color'' = Arr [Num 255, Num 0, Num 0] \<and>
      lookup opts ''texture'' = Null"
    by (intro exI [of _ opts]) simp
  from o' rgb have B: "\<exists>opts. getLayers Map.empty getFrame_second False terrain_scene =
        Inr [New ''TerrainLayer'' (Obj opts)] \<and>
      lookup opts ''color'' = Arr [Num 255, Num 0, Num 0] \<and>
      lookup opts ''texture'' = Str (SURFACE_IMAGE Map.empty)"
    by (intro exI [of _ opts']) simp
  from inst ne fr A B show ?thesis by blast
qed

text \<open>
  C10: for every state, the camera keyframe generator is the prerecorded one exactly when
  \<open>cameraMode\<close> is the string \<open>prerecorded\<close>, and for every other string it is the fly-to
  generator over the current \<open>viewStateA\<close> and \<open>viewStateB\<close>, which builds a
  \<open>FlyToKeyframes\<close> from them as start and end; a render that shows the recording controls
  hands them that generator.
\<close>

theorem getCameraKeyframes_by_cameraMode:
  "(getCameraKeyframes st = GetPrerecordedCameraKeyframes) = (cameraMode st = ''prerecorded'') \<and>
   (cameraMode st \<noteq> ''prerecorded'' \<longrightarrow>
      getCameraKeyframes st = GetFlyToCameraKeyframes (viewStateA st) (viewStateB st) \<and>
      generate (getCameraKeyframes st) = New ''FlyToKeyframes'' (Obj
        [(''start'', viewStateA st), (''end'', viewStateB st),
         (''width'', Num 640), (''height'', Num 480), (''curve'', Num 1)])) \<and>
   (cameraMode st = ''prerecorded'' \<longrightarrow>
      generate (getCameraKeyframes st) = getPrerecordedCameraKeyframes) \<and>
   map_option bc_getCameraKeyframes (controls (App st)) =
     (if ready st then Some (getCameraKeyframes st) else None)"
  by (simp add: getCameraKeyframes_def getFlyToCameraKeyframes_def App_def)

theorem getCameraKeyframes_by_cameraMode_witness:
  "cameraMode fly_to_state \<noteq> ''prerecorded'' \<and>
   getCameraKeyframes fly_to_state =
     GetFlyToCameraKeyframes INITIAL_VIEW_STATE (viewStateB initial_state) \<and>
   cameraMode initial_state = ''prerecorded'' \<and>
   generate (getCameraKeyframes initial_state) = getPrerecordedCameraKeyframes \<and>
   map_option bc_getCameraKeyframes (controls (App fly_to_state)) =
     Some (GetFlyToCameraKeyframes INITIAL_VIEW_STATE (viewStateB initial_state))"
proof -
  note t = getCameraKeyframes_by_cameraMode [of fly_to_state]
  note i = getCameraKeyframes_by_cameraMode [of initial_state]
  have a: "cameraMode fly_to_state \<noteq> ''prerecorded''"
    by (simp add: fly_to_state_def)
  have b: "cameraMode initial_state = ''prerecorded''"
    by (simp add: initial_state_def)
  have c: "viewStateA fly_to_state = INITIAL_VIEW_STATE"
    "viewStateB fly_to_state = viewStateB initial_state"
    by (simp_all add: fly_to_state_def initial_state_def)
  have r: "ready fly_to_state"
    by (simp add: fly_to_state_def)
  from t a have "getCameraKeyframes fly_to_state =
      GetFlyToCameraKeyframes (viewStateA fly_to_state) (viewStateB fly_to_state)"
    by blast
  with c have d: "getCameraKeyframes fly_to_state =
      GetFlyToCameraKeyframes INITIAL_VIEW_STATE (viewStateB initial_state)"
    by simp
  from t have "map_option bc_getCameraKeyframes (controls (App fly_to_state)) =
      (if ready fly_to_state then Some (getCameraKeyframes fly_to_state) else None)"
    by blast
  with r d have e: "map_option bc_getCameraKeyframes (controls (App fly_to_state)) =
      Some (GetFlyToCameraKeyframes INITIAL_VIEW_STATE (viewStateB initial_state))"
    by (simp only: if_True)
  from i b have f: "generate (getCameraKeyframes initial_state) = getPrerecordedCameraKeyframes"
    by blast
  from a b d e f show ?thesis by blast
qed

end
